theory Spec2Isabelle
  imports Main "HOL-Library.Sublist" "HOL-Library.Word" "HOL-Library.Code_Target_Nat"
begin

section \<open>JavaScript values\<close>

text \<open>
  The generator of \<^verbatim>\<open>k8s-pipeline-generator.js\<close> stores whatever object
  \<^verbatim>\<open>addStage\<close> is given and hands nested object literals to its callers, so
  the embedding works over a datatype of JavaScript data: the primitives, arrays, and
  plain objects as association lists of own data properties (the object literals of the
  source have distinct keys, and no key shadows a method of \<^verbatim>\<open>Object.prototype\<close>).
  \<open>JNum\<close> carries an integral Number from \<open>- (2 ^ 53)\<close> to \<open>2 ^ 53 - 1\<close>, as a
  signed word of 54 bits: JavaScript holds each of these Numbers exactly and prints it as
  its decimal digits (a numeral outside this range is not such a Number: it denotes the
  word it wraps to). Fractions, larger magnitudes, the negative zero, \<^verbatim>\<open>NaN\<close> and
  the infinities are outside the model, as are functions, symbols, getters and proxies.
  Strings are lists of code units.
\<close>

datatype jsval =
    JUndefined
  | JNull
  | JBool bool
  | JNum "54 word"
  | JStr string
  | JArr "jsval list"
  | JObj "(string \<times> jsval) list"

text \<open>
  What a \<^verbatim>\<open>throw\<close> raises: the engine's \<^verbatim>\<open>TypeError\<close> (a property read on
  \<^verbatim>\<open>undefined\<close> or \<^verbatim>\<open>null\<close>, a call of something that is no function), or the
  \<^verbatim>\<open>new Error(message)\<close> of the source.
\<close>

datatype error = TypeError | Error string

type_synonym 'a result = "error + 'a"

definition bind_result :: "'a result \<Rightarrow> ('a \<Rightarrow> 'b result) \<Rightarrow> 'b result" where
  "bind_result m f = (case m of Inl e \<Rightarrow> Inl e | Inr v \<Rightarrow> f v)"

subsection \<open>Conversion to string\<close>

definition digit_char :: "nat \<Rightarrow> char" where
  "digit_char d = ''0123456789'' ! d"

fun nat_to_string :: "nat \<Rightarrow> string" where
  "nat_to_string n =
     (if n < 10 then [digit_char n] else nat_to_string (n div 10) @ [digit_char (n mod 10)])"

declare nat_to_string.simps [simp del]

definition int_to_string :: "int \<Rightarrow> string" where
  "int_to_string i =
     (if i < 0 then CHR ''-'' # nat_to_string (nat (- i)) else nat_to_string (nat i))"

text \<open>\<^verbatim>\<open>Array.prototype.join\<close> on strings.\<close>

fun join :: "string \<Rightarrow> string list \<Rightarrow> string" where
  "join sep [] = []"
| "join sep [x] = x"
| "join sep (x # y # ys) = x @ sep @ join sep (y # ys)"

text \<open>
  \<^verbatim>\<open>ToString\<close>, which a template literal applies to each interpolated value. A
  Number of the model gives the decimal digits of its signed value. An array
  joins its elements with a comma, \<^verbatim>\<open>undefined\<close> and \<^verbatim>\<open>null\<close> elements giving the
  empty string; a plain object gives \<^verbatim>\<open>[object Object]\<close>.
\<close>

fun ToString :: "jsval \<Rightarrow> string" where
  "ToString JUndefined = ''undefined''"
| "ToString JNull = ''null''"
| "ToString (JBool b) = (if b then ''true'' else ''false'')"
| "ToString (JNum n) = int_to_string (sint n)"
| "ToString (JStr s) = s"
| "ToString (JArr xs) =
     join '','' (map (\<lambda>x. if x = JUndefined \<or> x = JNull then [] else ToString x) xs)"
| "ToString (JObj kvs) = ''[object Object]''"

subsection \<open>Property reads\<close>

text \<open>
  \<open>get_prop v k\<close> is \<^verbatim>\<open>v.k\<close> for the property names the source reads
  (\<^verbatim>\<open>name\<close>, \<^verbatim>\<open>steps\<close>, \<^verbatim>\<open>image\<close>, \<^verbatim>\<open>command\<close>, \<^verbatim>\<open>env\<close> and the keys of its
  own documents), none of which a built-in prototype defines: reading one from
  \<^verbatim>\<open>undefined\<close> or \<^verbatim>\<open>null\<close> throws, from an object it gives the own property or
  \<^verbatim>\<open>undefined\<close>, from any other value \<^verbatim>\<open>undefined\<close>.
\<close>

fun get_prop :: "jsval \<Rightarrow> string \<Rightarrow> jsval result" where
  "get_prop JUndefined k = Inl TypeError"
| "get_prop JNull k = Inl TypeError"
| "get_prop (JObj kvs) k = Inr (case map_of kvs k of Some v \<Rightarrow> v | None \<Rightarrow> JUndefined)"
| "get_prop v k = Inr JUndefined"

text \<open>
  \<open>get_index v i\<close> is \<^verbatim>\<open>v[i]\<close> for a literal index: out of range an array (and a
  string) gives \<^verbatim>\<open>undefined\<close>, it does not throw.
\<close>

fun get_index :: "jsval \<Rightarrow> nat \<Rightarrow> jsval result" where
  "get_index JUndefined i = Inl TypeError"
| "get_index JNull i = Inl TypeError"
| "get_index (JArr xs) i = Inr (if i < length xs then xs ! i else JUndefined)"
| "get_index (JStr s) i = Inr (if i < length s then JStr [s ! i] else JUndefined)"
| "get_index (JObj kvs) i =
     Inr (case map_of kvs (nat_to_string i) of Some v \<Rightarrow> v | None \<Rightarrow> JUndefined)"
| "get_index v i = Inr JUndefined"

text \<open>\<^verbatim>\<open>String.prototype.split\<close> with a one-character separator.\<close>

fun split_str :: "char \<Rightarrow> string \<Rightarrow> string list" where
  "split_str sep [] = [[]]"
| "split_str sep (c # cs) =
     (if c = sep then [] # split_str sep cs
      else (case split_str sep cs of [] \<Rightarrow> [[c]] | w # ws \<Rightarrow> (c # w) # ws))"

text \<open>
  \<^verbatim>\<open>v.split(sep)\<close>: only a string has the method; on \<^verbatim>\<open>undefined\<close> and
  \<^verbatim>\<open>null\<close> the property read throws, on every other value the call of
  \<^verbatim>\<open>undefined\<close> does.
\<close>

definition call_split :: "jsval \<Rightarrow> char \<Rightarrow> jsval result" where
  "call_split v sep =
     (case v of JStr s \<Rightarrow> Inr (JArr (map JStr (split_str sep s))) | _ \<Rightarrow> Inl TypeError)"

text \<open>A default parameter value applies when the argument is \<^verbatim>\<open>undefined\<close>.\<close>

definition param_default :: "'a \<Rightarrow> 'a option \<Rightarrow> 'a" where
  "param_default d a = (case a of None \<Rightarrow> d | Some v \<Rightarrow> v)"

definition jsval_default :: "jsval \<Rightarrow> jsval \<Rightarrow> jsval" where
  "jsval_default d a = (if a = JUndefined then d else a)"

section \<open>The generator\<close>

text \<open>
  The fields of \<^verbatim>\<open>K8sPipelineGenerator\<close>. The documented string options are
  strings, the registry descriptor has the shape of the constructor's default, and a
  stage is any value.
\<close>

record aws_config =
  region :: string
  accountId :: string
  ecrRepository :: string

record registry_config =
  aws :: aws_config

record generator =
  projectName :: string
  repoUrl :: string
  branch :: string
  namespace :: string
  dockerRegistry :: string
  deploymentConfig :: jsval
  stages :: "jsval list"
  environments :: "string list"
  dockerfilePath :: string
  registry :: registry_config

text \<open>
  The constructor's options; \<open>None\<close> is an absent option. \<^verbatim>\<open>x || d\<close> takes the
  default for every falsy \<^verbatim>\<open>x\<close>, so also for the empty string.
\<close>

record options =
  opt_projectName :: "string option"
  opt_repoUrl :: "string option"
  opt_branch :: "string option"
  opt_namespace :: "string option"
  opt_dockerRegistry :: "string option"
  opt_deploymentConfig :: "jsval option"
  opt_dockerfilePath :: "string option"
  opt_registry :: "registry_config option"

definition or_string :: "string option \<Rightarrow> string \<Rightarrow> string" where
  "or_string x d = (case x of None \<Rightarrow> d | Some s \<Rightarrow> if s = [] then d else s)"

definition truthy :: "jsval \<Rightarrow> bool" where
  "truthy v =
     (case v of JUndefined \<Rightarrow> False | JNull \<Rightarrow> False | JBool b \<Rightarrow> b
      | JNum n \<Rightarrow> n \<noteq> 0 | JStr s \<Rightarrow> s \<noteq> [] | _ \<Rightarrow> True)"

definition constructor :: "options \<Rightarrow> generator" where
  "constructor opts =
     (let pn = or_string (opt_projectName opts) ''k8s-app'' in
      \<lparr> projectName = pn,
        repoUrl = or_string (opt_repoUrl opts) [],
        branch = or_string (opt_branch opts) ''main'',
        namespace = or_string (opt_namespace opts) ''default'',
        dockerRegistry = or_string (opt_dockerRegistry opts) [],
        deploymentConfig =
          (case opt_deploymentConfig opts of
             None \<Rightarrow> JObj []
           | Some v \<Rightarrow> if truthy v then v else JObj []),
        stages = [],
        environments = [''dev'', ''staging'', ''prod''],
        dockerfilePath = or_string (opt_dockerfilePath opts) ''./Dockerfile'',
        registry =
          (case opt_registry opts of
             None \<Rightarrow>
               \<lparr> aws = \<lparr> region = ''us-east-1'', accountId = ''123456789012'',
                         ecrRepository = pn @ ''-repo'' \<rparr> \<rparr>
           | Some r \<Rightarrow> r) \<rparr>)"

definition no_options :: options where
  "no_options =
     \<lparr> opt_projectName = None, opt_repoUrl = None, opt_branch = None, opt_namespace = None,
       opt_dockerRegistry = None, opt_deploymentConfig = None, opt_dockerfilePath = None,
       opt_registry = None \<rparr>"

subsection \<open>The stage model\<close>

definition addStage :: "generator \<Rightarrow> jsval \<Rightarrow> generator" where
  "addStage g stage = g\<lparr>stages := stages g @ [stage]\<rparr>"

definition addTestStage :: "generator \<Rightarrow> string option \<Rightarrow> string option \<Rightarrow> generator" where
  "addTestStage g command image' =
     addStage g
       (JObj [(''name'', JStr ''test''),
              (''steps'', JArr [
                 JObj [(''name'', JStr ''run-tests''),
                       (''image'', JStr (param_default ''node:14'' image')),
                       (''command'',
                          JArr [JStr ''sh'', JStr ''-c'',
                                JStr (param_default ''npm test'' command)])]])])"

definition addBuildStage :: "generator \<Rightarrow> string option \<Rightarrow> string option \<Rightarrow> generator" where
  "addBuildStage g buildCommand image' =
     addStage g
       (JObj [(''name'', JStr ''build''),
              (''steps'', JArr [
                 JObj [(''name'', JStr ''build-app''),
                       (''image'', JStr (param_default ''node:14'' image')),
                       (''command'',
                          JArr [JStr ''sh'', JStr ''-c'',
                                JStr (param_default ''npm run build'' buildCommand)])]])])"

definition addDockerBuildStage :: "generator \<Rightarrow> string \<Rightarrow> string option \<Rightarrow> generator" where
  "addDockerBuildStage g imageName tag =
     (let imageTag = dockerRegistry g @ ''/'' @ imageName @ '':'' @ param_default ''latest'' tag in
      addStage g
        (JObj [(''name'', JStr ''docker-build''),
               (''steps'', JArr [
                  JObj [(''name'', JStr ''build-and-push''),
                        (''image'', JStr ''docker:20.10.12-dind''),
                        (''command'',
                           JArr [JStr ''sh'', JStr ''-c'',
                                 JStr (''docker build -t '' @ imageTag @ '' -f '' @ dockerfilePath g
                                       @ '' . && docker push '' @ imageTag)]),
                        (''env'',
                           JArr [JObj [(''name'', JStr ''DOCKER_HOST''),
                                       (''value'', JStr ''tcp://localhost:2375'')]])]])]))"

text \<open>
  \<^verbatim>\<open>addDeployStage\<close> throws before it touches the stage list, or appends and returns
  the generator: the outcome, and the generator as the call leaves it.
\<close>

definition deploy_stage :: "string \<Rightarrow> jsval" where
  "deploy_stage environment =
     JObj [(''name'', JStr (''deploy-to-'' @ environment)),
           (''steps'', JArr [
              JObj [(''name'', JStr ''kubectl-apply''),
                    (''image'', JStr ''bitnami/kubectl:latest''),
                    (''command'',
                       JArr [JStr ''sh'', JStr ''-c'',
                             JStr ''kubectl apply -f /workspace/k8s/${ENVIRONMENT}/''])]]),
           (''env'',
              JArr [JObj [(''name'', JStr ''ENVIRONMENT''), (''value'', JStr environment)]])]"

definition addDeployStage ::
  "generator \<Rightarrow> string option \<Rightarrow> jsval \<Rightarrow> unit result \<times> generator" where
  "addDeployStage g environment resources =
     (let env = param_default ''dev'' environment in
      if env \<notin> set (environments g) then
        (Inl (Error (''Environment '' @ env @ '' is not valid. Use one of: ''
                     @ join '', '' (environments g))), g)
      else (Inr (), addStage g (deploy_stage env)))"

section \<open>The Jenkins renderer\<close>

abbreviation nl :: char where "nl \<equiv> CHR 0x0A"
abbreviation sq :: char where "sq \<equiv> CHR 0x27"

text \<open>A template literal's text, line by line: each line ends with a line feed.\<close>

definition text_lines :: "string list \<Rightarrow> string" where
  "text_lines ls = concat (map (\<lambda>l. l @ [nl]) ls)"

definition jenkins_preamble :: "generator \<Rightarrow> string" where
  \<open>jenkins_preamble g =
     nl # text_lines [
       ''pipeline {'',
       ''  agent {'',
       ''    kubernetes {'',
       ''      yaml '' @ [sq, sq, sq],
       ''apiVersion: v1'',
       ''kind: Pod'',
       ''metadata:'',
       ''  labels:'',
       ''    app: '' @ projectName g @ ''-pipeline'',
       ''spec:'',
       ''  containers:'',
       ''  - name: jnlp'',
       ''    image: jenkins/inbound-agent:4.11.2-4'',
       ''  - name: docker'',
       ''    image: docker:20.10.12-dind'',
       ''    securityContext:'',
       ''      privileged: true'',
       ''    volumeMounts:'',
       ''    - name: docker-socket'',
       ''      mountPath: /var/run/docker.sock'',
       ''  - name: kubectl'',
       ''    image: bitnami/kubectl:latest'',
       ''    command:'',
       ''    - cat'',
       ''    tty: true'',
       ''  volumes:'',
       ''  - name: docker-socket'',
       ''    hostPath:'',
       ''      path: /var/run/docker.sock'',
       ''      type: Socket'',
       [sq, sq, sq],
       ''    }'',
       ''  }'',
       ''  '',
       ''  environment {'',
       ''    PROJECT_NAME = "'' @ projectName g @ ''"'',
       ''    DOCKER_REGISTRY = "'' @ dockerRegistry g @ ''"'',
       ''    NAMESPACE = "'' @ namespace g @ ''"'',
       ''    GIT_BRANCH = "'' @ branch g @ ''"'',
       ''  }'',
       ''  '',
       ''  stages {'']\<close>

definition checkout_block :: string where
  "checkout_block =
     nl # text_lines [
       ''    stage('' @ [sq] @ ''Checkout'' @ [sq] @ '') {'',
       ''      steps {'',
       ''        checkout scm'',
       ''      }'',
       ''    }'']"

text \<open>
  The text of one stage block, given the three interpolated strings: the stage's title,
  the container's name and the script.
\<close>

definition stage_block_text :: "string \<Rightarrow> string \<Rightarrow> string \<Rightarrow> string" where
  \<open>stage_block_text title container script =
     nl # text_lines [
       ''    stage('' @ [sq] @ title @ [sq] @ '') {'',
       ''      steps {'',
       ''        container('' @ [sq] @ container @ [sq] @ '') {'',
       ''          sh """'',
       ''            '' @ script,
       ''          """'',
       ''        }'',
       ''      }'',
       ''    }'']\<close>

definition post_block :: string where
  "post_block =
     nl # text_lines [
       ''  }'',
       ''  '',
       ''  post {'',
       ''    always {'',
       ''      cleanWs()'',
       ''    }'',
       ''    success {'',
       ''      echo '' @ [sq] @ ''Pipeline completed successfully!'' @ [sq],
       ''    }'',
       ''    failure {'',
       ''      echo '' @ [sq] @ ''Pipeline failed!'' @ [sq],
       ''    }'',
       ''  }'',
       ''}'']"

text \<open>
  The callback of \<^verbatim>\<open>this.stages.forEach\<close>: the template literal's expressions are
  evaluated from left to right, \<^verbatim>\<open>stage.name\<close>, then
  \<^verbatim>\<open>stage.steps[0].image.split(':')[0]\<close>, then \<^verbatim>\<open>stage.steps[0].command[2]\<close>,
  each converted to a string. Any of the reads may throw.
\<close>

definition stage_block :: "jsval \<Rightarrow> string result" where
  "stage_block stage =
     bind_result (get_prop stage ''name'') (\<lambda>name.
     bind_result (get_prop stage ''steps'') (\<lambda>steps.
     bind_result (get_index steps 0) (\<lambda>step.
     bind_result (get_prop step ''image'') (\<lambda>image'.
     bind_result (call_split image' CHR '':'') (\<lambda>parts.
     bind_result (get_index parts 0) (\<lambda>container.
     bind_result (get_prop stage ''steps'') (\<lambda>steps2.
     bind_result (get_index steps2 0) (\<lambda>step2.
     bind_result (get_prop step2 ''command'') (\<lambda>command.
     bind_result (get_index command 2) (\<lambda>token.
       Inr (stage_block_text (ToString name) (ToString container) (ToString token))))))))))))"

text \<open>The loop appends one block per stage; a throw leaves the loop and the method.\<close>

fun forEach_stage :: "jsval list \<Rightarrow> string \<Rightarrow> string result" where
  "forEach_stage [] jenkinsfileContent = Inr jenkinsfileContent"
| "forEach_stage (stage # rest) jenkinsfileContent =
     (case stage_block stage of
        Inl e \<Rightarrow> Inl e
      | Inr block \<Rightarrow> forEach_stage rest (jenkinsfileContent @ block))"

definition generateJenkinsfile :: "generator \<Rightarrow> string result" where
  "generateJenkinsfile g =
     bind_result (forEach_stage (stages g) (jenkins_preamble g @ checkout_block))
       (\<lambda>jenkinsfileContent. Inr (jenkinsfileContent @ post_block))"


section \<open>The build specifications and the cloud pipeline\<close>

text \<open>
  What the renderers take from outside the repository: \<^verbatim>\<open>yaml.dump\<close> of the
  \<^verbatim>\<open>js-yaml\<close> package, of which only the type matters here. The second field is
  the ninth command of the \<^verbatim>\<open>post_build\<close> phase of \<^verbatim>\<open>generateBuildSpec\<close>, the
  one that writes \<^verbatim>\<open>imageDefinition.json\<close>: the source gives it as a quoted string
  directly followed by \<^verbatim>\<open>${accountId}\<close>, which is no expression of the language,
  so its text is left open, as a function of the account id, the region and the
  repository name that the line mentions.
\<close>

record externals =
  dump :: "jsval \<Rightarrow> string"
  image_definition_command :: "string \<Rightarrow> string \<Rightarrow> string \<Rightarrow> string"

definition commands :: "string list \<Rightarrow> jsval" where
  "commands cs = JObj [(''commands'', JArr (map JStr cs))]"

definition generateBuildSpec :: "externals \<Rightarrow> generator \<Rightarrow> string" where
  \<open>generateBuildSpec ext g =
     (let region = region (aws (registry g));
          accountId = accountId (aws (registry g));
          ecrRepo = ecrRepository (aws (registry g));
          repoUri = accountId @ ''.dkr.ecr.'' @ region @ ''.amazonaws.com/'' @ ecrRepo
      in dump ext
        (JObj [
          (''version'', JStr ''0.2''),
          (''phases'', JObj [
            (''pre_build'', commands [
               ''echo Logging in to Amazon ECR...'',
               ''aws ecr get-login-password --region '' @ region
                 @ '' | docker login --username AWS --password-stdin '' @ accountId
                 @ ''.dkr.ecr.'' @ region @ ''.amazonaws.com'',
               ''echo Checking if repository exists...'',
               ''aws ecr describe-repositories --repository-names '' @ ecrRepo
                 @ '' || aws ecr create-repository --repository-name '' @ ecrRepo,
               ''COMMIT_HASH=$(echo $CODEBUILD_RESOLVED_SOURCE_VERSION | cut -c 1-7)'',
               ''IMAGE_TAG=${COMMIT_HASH:=latest}'']),
            (''build'', commands [
               ''echo Build started on `date`'',
               ''echo Building the Docker image: '' @ repoUri @ '':$IMAGE_TAG'',
               ''docker build -t '' @ repoUri @ '':$IMAGE_TAG -f '' @ dockerfilePath g @ '' .'',
               ''docker tag '' @ repoUri @ '':$IMAGE_TAG '' @ repoUri @ '':latest'']),
            (''post_build'', commands [
               ''echo Build completed on `date`'',
               ''echo Pushing the Docker image...'',
               ''docker push '' @ repoUri @ '':$IMAGE_TAG'',
               ''docker push '' @ repoUri @ '':latest'',
               ''echo Writing artifact files...'',
               image_definition_command ext accountId region ecrRepo,
               ''echo Generating Kubernetes manifests...'',
               ''mkdir -p kubernetes/'',
               ''envsubst < k8s/deployment.yaml > kubernetes/deployment.yaml'',
               ''envsubst < k8s/service.yaml > kubernetes/service.yaml''])]),
          (''artifacts'', JObj [
            (''files'', JArr [
               JStr ''imageDefinition.json'',
               JStr ''appspec.yaml'',
               JStr ''kubernetes/**/*'',
               JStr ''k8s/**/*''])])]))\<close>

definition generateDeployBuildSpec :: "externals \<Rightarrow> generator \<Rightarrow> string" where
  \<open>generateDeployBuildSpec ext g =
     dump ext
       (JObj [
         (''version'', JStr ''0.2''),
         (''phases'', JObj [
           (''install'', commands [
              ''echo Installing kubectl...'',
              ''curl -o kubectl https://amazon-eks.s3.us-west-2.amazonaws.com/1.21.2/2021-07-05/bin/linux/amd64/kubectl'',
              ''chmod +x ./kubectl'',
              ''mv ./kubectl /usr/local/bin/kubectl'']),
           (''pre_build'', commands [
              ''echo Configuring kubectl...'',
              ''aws eks update-kubeconfig --name ${EKS_CLUSTER_NAME} --region ${AWS_REGION}'']),
           (''build'', commands [
              ''echo Deployment started on `date`'',
              ''echo Updating image in Kubernetes manifests...'',
              ''IMAGE_URI=$(cat imageDefinition.json | jq -r '' @ [sq] @ ''.ImageURI'' @ [sq] @ '')'',
              ''sed -i "s|IMAGE_PLACEHOLDER|$IMAGE_URI|g" kubernetes/deployment.yaml'',
              ''echo Applying Kubernetes manifests...'',
              ''kubectl apply -f kubernetes/deployment.yaml -n ${NAMESPACE}'',
              ''kubectl apply -f kubernetes/service.yaml -n ${NAMESPACE}'']),
           (''post_build'', commands [
              ''echo Deployment completed on `date`'',
              ''kubectl get pods -n ${NAMESPACE}'',
              ''kubectl get services -n ${NAMESPACE}''])])])\<close>

subsection \<open>The repository identifier\<close>

text \<open>
  \<^verbatim>\<open>this.repoUrl.replace(/^.*github.com\//, '')\<close>. The pattern is anchored at the
  start of the string; \<^verbatim>\<open>.*\<close> is greedy and, like the \<^verbatim>\<open>.\<close> between
  \<^verbatim>\<open>github\<close> and \<^verbatim>\<open>com\<close>, matches any character but a line terminator.
  \<open>match_token\<close> matches \<^verbatim>\<open>github.com\/\<close> at the start of a string and gives what
  follows it; \<open>match_prefix\<close> matches the whole pattern, trying the longest \<^verbatim>\<open>.*\<close>
  first. Without a match \<^verbatim>\<open>replace\<close> returns the string as it is.
\<close>

definition is_line_terminator :: "char \<Rightarrow> bool" where
  "is_line_terminator c = (c = CHR 0x0A \<or> c = CHR 0x0D)"

definition match_token :: "string \<Rightarrow> string option" where
  "match_token s =
     (if 11 \<le> length s \<and> take 6 s = ''github'' \<and> \<not> is_line_terminator (s ! 6)
         \<and> take 4 (drop 7 s) = ''com/''
      then Some (drop 11 s) else None)"

fun match_prefix :: "string \<Rightarrow> string option" where
  "match_prefix [] = match_token []"
| "match_prefix (c # cs) =
     (case (if is_line_terminator c then None else match_prefix cs) of
        Some rest \<Rightarrow> Some rest
      | None \<Rightarrow> match_token (c # cs))"

definition replace_github_prefix :: "string \<Rightarrow> string" where
  "replace_github_prefix url = (case match_prefix url of Some rest \<Rightarrow> rest | None \<Rightarrow> url)"

subsection \<open>The pipeline template\<close>

definition get_att :: "string \<Rightarrow> jsval" where
  "get_att r = JObj [(''Fn::GetAtt'', JArr [JStr r, JStr ''Arn''])]"

definition service_role :: "string \<Rightarrow> string list \<Rightarrow> jsval" where
  "service_role service policies =
     JObj [
       (''Type'', JStr ''AWS::IAM::Role''),
       (''Properties'', JObj [
         (''AssumeRolePolicyDocument'', JObj [
           (''Version'', JStr ''2012-10-17''),
           (''Statement'', JArr [
             JObj [(''Effect'', JStr ''Allow''),
                   (''Principal'', JObj [(''Service'', JStr service)]),
                   (''Action'', JStr ''sts:AssumeRole'')]])]),
         (''ManagedPolicyArns'', JArr (map JStr policies))])]"

definition action_type :: "string \<Rightarrow> string \<Rightarrow> jsval" where
  "action_type category provider =
     JObj [(''Category'', JStr category), (''Owner'', JStr ''AWS''),
           (''Provider'', JStr provider), (''Version'', JStr ''1'')]"

definition pipeline_stages :: "generator \<Rightarrow> jsval" where
  "pipeline_stages g =
     JArr [
       JObj [
         (''Name'', JStr ''Source''),
         (''Actions'', JArr [
           JObj [
             (''Name'', JStr ''Source''),
             (''ActionTypeId'', action_type ''Source'' ''CodeStarSourceConnection''),
             (''Configuration'', JObj [
               (''ConnectionArn'', JStr ''{{CONNECTION_ARN}}''),
               (''FullRepositoryId'', JStr (replace_github_prefix (repoUrl g))),
               (''BranchName'', JStr (branch g))]),
             (''OutputArtifacts'', JArr [JObj [(''Name'', JStr ''SourceCode'')]])]])],
       JObj [
         (''Name'', JStr ''Build''),
         (''Actions'', JArr [
           JObj [
             (''Name'', JStr ''BuildAndPushDockerImage''),
             (''ActionTypeId'', action_type ''Build'' ''CodeBuild''),
             (''Configuration'', JObj [
               (''ProjectName'', JObj [(''Ref'', JStr ''DockerBuildProject'')])]),
             (''InputArtifacts'', JArr [JObj [(''Name'', JStr ''SourceCode'')]]),
             (''OutputArtifacts'', JArr [JObj [(''Name'', JStr ''BuildOutput'')]])]])],
       JObj [
         (''Name'', JStr ''Deploy''),
         (''Actions'', JArr [
           JObj [
             (''Name'', JStr ''DeployToKubernetes''),
             (''ActionTypeId'', action_type ''Build'' ''CodeBuild''),
             (''Configuration'', JObj [
               (''ProjectName'', JObj [(''Ref'', JStr ''KubernetesDeployProject'')])]),
             (''InputArtifacts'', JArr [JObj [(''Name'', JStr ''BuildOutput'')]])]])]]"

definition generateAwsCodePipeline :: "externals \<Rightarrow> generator \<Rightarrow> jsval" where
  "generateAwsCodePipeline ext g =
     (let pipelineName = projectName g @ ''-pipeline'' in
      JObj [
        (''AWSTemplateFormatVersion'', JStr ''2010-09-09''),
        (''Description'',
           JStr (''AWS CodePipeline for '' @ projectName g @ '' Kubernetes deployment'')),
        (''Resources'', JObj [
          (''ArtifactBucket'', JObj [
            (''Type'', JStr ''AWS::S3::Bucket''),
            (''Properties'', JObj [
              (''VersioningConfiguration'', JObj [(''Status'', JStr ''Enabled'')])])]),
          (''CodeBuildServiceRole'',
             service_role ''codebuild.amazonaws.com''
               [''arn:aws:iam::aws:policy/AmazonECR-FullAccess'',
                ''arn:aws:iam::aws:policy/AmazonS3FullAccess'']),
          (''CodePipelineServiceRole'',
             service_role ''codepipeline.amazonaws.com''
               [''arn:aws:iam::aws:policy/AWSCodeBuildAdminAccess'',
                ''arn:aws:iam::aws:policy/AmazonS3FullAccess'',
                ''arn:aws:iam::aws:policy/AmazonECR-FullAccess'']),
          (''DockerBuildProject'', JObj [
            (''Type'', JStr ''AWS::CodeBuild::Project''),
            (''Properties'', JObj [
              (''Name'', JStr (projectName g @ ''-docker-build'')),
              (''ServiceRole'', get_att ''CodeBuildServiceRole''),
              (''Artifacts'', JObj [(''Type'', JStr ''CODEPIPELINE'')]),
              (''Environment'', JObj [
                (''Type'', JStr ''LINUX_CONTAINER''),
                (''ComputeType'', JStr ''BUILD_GENERAL1_SMALL''),
                (''Image'', JStr ''aws/codebuild/amazonlinux2-x86_64-standard:3.0''),
                (''PrivilegedMode'', JBool True)]),
              (''Source'', JObj [
                (''Type'', JStr ''CODEPIPELINE''),
                (''BuildSpec'', JStr (generateBuildSpec ext g))])])]),
          (''KubernetesDeployProject'', JObj [
            (''Type'', JStr ''AWS::CodeBuild::Project''),
            (''Properties'', JObj [
              (''Name'', JStr (projectName g @ ''-k8s-deploy'')),
              (''ServiceRole'', get_att ''CodeBuildServiceRole''),
              (''Artifacts'', JObj [(''Type'', JStr ''CODEPIPELINE'')]),
              (''Environment'', JObj [
                (''Type'', JStr ''LINUX_CONTAINER''),
                (''ComputeType'', JStr ''BUILD_GENERAL1_SMALL''),
                (''Image'', JStr ''aws/codebuild/amazonlinux2-x86_64-standard:3.0'')]),
              (''Source'', JObj [
                (''Type'', JStr ''CODEPIPELINE''),
                (''BuildSpec'', JStr (generateDeployBuildSpec ext g))])])]),
          (''Pipeline'', JObj [
            (''Type'', JStr ''AWS::CodePipeline::Pipeline''),
            (''Properties'', JObj [
              (''Name'', JStr pipelineName),
              (''RoleArn'', get_att ''CodePipelineServiceRole''),
              (''ArtifactStore'', JObj [
                (''Type'', JStr ''S3''),
                (''Location'', JObj [(''Ref'', JStr ''ArtifactBucket'')])]),
              (''Stages'', pipeline_stages g)])])]),
        (''Outputs'', JObj [
          (''PipelineUrl'', JObj [
            (''Description'', JStr ''URL to the AWS CodePipeline console''),
            (''Value'', JObj [
              (''Fn::Sub'',
                 JStr (''https://${AWS::Region}.console.aws.amazon.com/codepipeline/home''
                       @ ''?region=${AWS::Region}#/view/'' @ pipelineName))])])])])"

text \<open>Reading a document along a path of property names and indices.\<close>

datatype selector = Key string | Index nat

fun select :: "jsval \<Rightarrow> selector list \<Rightarrow> jsval result" where
  "select v [] = Inr v"
| "select v (Key k # path) = bind_result (get_prop v k) (\<lambda>w. select w path)"
| "select v (Index i # path) = bind_result (get_index v i) (\<lambda>w. select w path)"

section \<open>The Kubernetes manifests\<close>

text \<open>
  The object that \<^verbatim>\<open>generateK8sDeployment\<close> builds and hands to \<^verbatim>\<open>yaml.dump\<close>.
  The parameters \<^verbatim>\<open>imageName\<close> and \<^verbatim>\<open>tag\<close> are not read.
\<close>

definition deployment :: "generator \<Rightarrow> string \<Rightarrow> string option \<Rightarrow> jsval \<Rightarrow> jsval" where
  "deployment g imageName tag resources' =
     (let resources =
            jsval_default (JObj [(''cpu'', JStr ''100m''), (''memory'', JStr ''128Mi'')]) resources'
      in
      JObj [
        (''apiVersion'', JStr ''apps/v1''),
        (''kind'', JStr ''Deployment''),
        (''metadata'', JObj [
          (''name'', JStr (projectName g)),
          (''namespace'', JStr (namespace g)),
          (''labels'', JObj [(''app'', JStr (projectName g))])]),
        (''spec'', JObj [
          (''replicas'', JNum 1),
          (''selector'', JObj [
            (''matchLabels'', JObj [(''app'', JStr (projectName g))])]),
          (''template'', JObj [
            (''metadata'', JObj [
              (''labels'', JObj [(''app'', JStr (projectName g))])]),
            (''spec'', JObj [
              (''containers'', JArr [
                JObj [
                  (''name'', JStr (projectName g)),
                  (''image'', JStr ''IMAGE_PLACEHOLDER''),
                  (''imagePullPolicy'', JStr ''Always''),
                  (''ports'', JArr [JObj [(''containerPort'', JNum 8080)]]),
                  (''resources'', JObj [(''requests'', resources)])]])])])])])"

definition generateK8sDeployment ::
  "externals \<Rightarrow> generator \<Rightarrow> string \<Rightarrow> string option \<Rightarrow> jsval \<Rightarrow> string" where
  "generateK8sDeployment ext g imageName tag resources =
     dump ext (deployment g imageName tag resources)"

definition generateK8sService :: "externals \<Rightarrow> generator \<Rightarrow> jsval \<Rightarrow> jsval \<Rightarrow> jsval \<Rightarrow> string" where
  "generateK8sService ext g port targetPort type' =
     dump ext
       (JObj [
         (''apiVersion'', JStr ''v1''),
         (''kind'', JStr ''Service''),
         (''metadata'', JObj [
           (''name'', JStr (projectName g)),
           (''namespace'', JStr (namespace g)),
           (''labels'', JObj [(''app'', JStr (projectName g))])]),
         (''spec'', JObj [
           (''type'', jsval_default (JStr ''ClusterIP'') type'),
           (''ports'', JArr [
             JObj [(''port'', jsval_default (JNum 80) port),
                   (''targetPort'', jsval_default (JNum 8080) targetPort),
                   (''protocol'', JStr ''TCP'')]]),
           (''selector'', JObj [(''app'', JStr (projectName g))])])])"

section \<open>Saving the files\<close>

subsection \<open>Paths\<close>

text \<open>
  \<^verbatim>\<open>path.join\<close> of Node.js for two arguments, on a POSIX system: the non-empty
  arguments are joined with a slash and the result is normalised. Normalisation drops
  empty and \<^verbatim>\<open>.\<close> segments and resolves \<^verbatim>\<open>..\<close> against the segment before it; a
  relative path keeps the \<^verbatim>\<open>..\<close> segments it cannot resolve, an absolute one drops
  them. \<open>resolve_segments\<close> keeps the segments seen so far in reverse.
\<close>

fun resolve_segments :: "bool \<Rightarrow> string list \<Rightarrow> string list \<Rightarrow> string list" where
  "resolve_segments allowAboveRoot res [] = rev res"
| "resolve_segments allowAboveRoot res (seg # segs) =
     (if seg = [] \<or> seg = ''.'' then resolve_segments allowAboveRoot res segs
      else if seg = ''..'' then
        (if res \<noteq> [] \<and> hd res \<noteq> ''..'' then resolve_segments allowAboveRoot (tl res) segs
         else if allowAboveRoot then resolve_segments allowAboveRoot (''..'' # res) segs
         else resolve_segments allowAboveRoot res segs)
      else resolve_segments allowAboveRoot (seg # res) segs)"

definition normalize :: "string \<Rightarrow> string" where
  "normalize path =
     (if path = [] then ''.''
      else
        let isAbsolute = (hd path = CHR ''/'');
            trailingSeparator = (last path = CHR ''/'');
            body = join ''/'' (resolve_segments (\<not> isAbsolute) [] (split_str CHR ''/'' path))
        in if body = [] then
             (if isAbsolute then ''/'' else if trailingSeparator then ''./'' else ''.'')
           else (if isAbsolute then ''/'' else []) @ body
                @ (if trailingSeparator then ''/'' else []))"

definition path_join :: "string \<Rightarrow> string \<Rightarrow> string" where
  "path_join a b =
     (let joined = (if a = [] then b else if b = [] then a else a @ ''/'' @ b)
      in if joined = [] then ''.'' else normalize joined)"

subsection \<open>The file system\<close>

text \<open>
  The state that \<^verbatim>\<open>saveToFiles\<close> changes: the directories that exist, and the files
  written, in the order of the writes (the last write to a path is its content).
  \<open>mkdirSync\<close> lists the directory it is asked for, not the missing parents that its
  recursive option creates as well. Every call of \<^verbatim>\<open>fs\<close> is taken to succeed.
\<close>

record filesystem =
  directories :: "string list"
  files :: "(string \<times> string) list"

definition existsSync :: "filesystem \<Rightarrow> string \<Rightarrow> bool" where
  "existsSync fs p = (p \<in> set (directories fs) \<or> p \<in> set (map fst (files fs)))"

definition mkdirSync :: "filesystem \<Rightarrow> string \<Rightarrow> filesystem" where
  "mkdirSync fs p = fs\<lparr>directories := directories fs @ [p]\<rparr>"

definition writeFileSync :: "filesystem \<Rightarrow> string \<Rightarrow> string \<Rightarrow> filesystem" where
  "writeFileSync fs p content = fs\<lparr>files := files fs @ [(p, content)]\<rparr>"

definition ensure_directory :: "filesystem \<Rightarrow> string \<Rightarrow> filesystem" where
  "ensure_directory fs p = (if \<not> existsSync fs p then mkdirSync fs p else fs)"

subsection \<open>\<^verbatim>\<open>saveToFiles\<close>\<close>

text \<open>The body of the second loop over the environments: the two manifests of one.\<close>

definition save_manifests ::
  "externals \<Rightarrow> generator \<Rightarrow> string \<Rightarrow> filesystem \<Rightarrow> string \<Rightarrow> filesystem" where
  "save_manifests ext g k8sDir fs env =
     (let envDir = path_join k8sDir env;
          deploymentPath = path_join envDir ''deployment.yaml'';
          fs1 = writeFileSync fs deploymentPath
                  (generateK8sDeployment ext g (projectName g @ ''-'' @ env) None JUndefined);
          servicePath = path_join envDir ''service.yaml''
      in writeFileSync fs1 servicePath
           (generateK8sService ext g JUndefined JUndefined JUndefined))"

text \<open>
  The outcome of the call, the returned object or what \<^verbatim>\<open>generateJenkinsfile\<close>
  threw, and the file system as the call leaves it.
\<close>

definition saveToFiles ::
  "externals \<Rightarrow> generator \<Rightarrow> filesystem \<Rightarrow> string option \<Rightarrow> jsval result \<times> filesystem" where
  "saveToFiles ext g fs outputDir' =
     (let outputDir = param_default ''./pipeline'' outputDir';
          fs1 = ensure_directory fs outputDir;
          k8sDir = path_join outputDir ''k8s'';
          fs2 = ensure_directory fs1 k8sDir;
          fs3 = foldl (\<lambda>f env. ensure_directory f (path_join k8sDir env)) fs2 (environments g);
          jenkinsfilePath = path_join outputDir ''Jenkinsfile''
      in case generateJenkinsfile g of
           Inl e \<Rightarrow> (Inl e, fs3)
         | Inr jenkinsfile \<Rightarrow>
             (let fs4 = writeFileSync fs3 jenkinsfilePath jenkinsfile;
                  awsCodePipelinePath = path_join outputDir ''aws-codepipeline.yaml'';
                  fs5 = writeFileSync fs4 awsCodePipelinePath
                          (dump ext (generateAwsCodePipeline ext g));
                  buildspecPath = path_join outputDir ''buildspec.yml'';
                  fs6 = writeFileSync fs5 buildspecPath (generateBuildSpec ext g);
                  deployBuildspecPath = path_join outputDir ''deploy-buildspec.yml'';
                  fs7 = writeFileSync fs6 deployBuildspecPath (generateDeployBuildSpec ext g);
                  fs8 = foldl (save_manifests ext g k8sDir) fs7 (environments g)
              in (Inr (JObj [(''jenkinsfilePath'', JStr jenkinsfilePath),
                             (''awsCodePipelinePath'', JStr awsCodePipelinePath),
                             (''buildspecPath'', JStr buildspecPath),
                             (''deployBuildspecPath'', JStr deployBuildspecPath),
                             (''k8sDir'', JStr k8sDir)]),
                  fs8)))"

text \<open>The paths that a returned object holds: the strings among its property values.\<close>

fun returned_paths :: "jsval \<Rightarrow> string list" where
  "returned_paths (JObj kvs) = concat (map (\<lambda>(k, v). case v of JStr p \<Rightarrow> [p] | _ \<Rightarrow> []) kvs)"
| "returned_paths v = []"

text \<open>
  An instance of the outside functions for running the model on concrete inputs; the
  results below that name it do not depend on the texts it produces.
\<close>

definition sample_externals :: externals where
  "sample_externals =
     \<lparr> dump = ToString,
       image_definition_command = (\<lambda>accountId region ecrRepo.
          ''echo '' @ accountId @ ''.dkr.ecr.'' @ region @ ''.amazonaws.com/'' @ ecrRepo
          @ '' > imageDefinition.json'') \<rparr>"

definition empty_filesystem :: filesystem where
  "empty_filesystem = \<lparr> directories = [], files = [] \<rparr>"

section \<open>The example program\<close>

text \<open>
  The generator that \<^verbatim>\<open>example.js\<close> builds: its options, then a test, a build and
  an image-build stage and a deploy stage for each of the three environments.
\<close>

definition example_options :: options where
  "example_options =
     \<lparr> opt_projectName = Some ''my-nodejs-app'',
       opt_repoUrl = Some ''https://github.com/myorg/my-nodejs-app'',
       opt_branch = Some ''main'',
       opt_namespace = Some ''production'',
       opt_dockerRegistry = Some ''myorg'',
       opt_deploymentConfig = None,
       opt_dockerfilePath = Some ''./Dockerfile'',
       opt_registry =
         Some \<lparr> aws = \<lparr> region = ''us-west-2'', accountId = ''123456789012'',
                          ecrRepository = ''my-nodejs-app'' \<rparr> \<rparr> \<rparr>"

definition example_generator :: generator where
  "example_generator =
     (let g0 = constructor example_options;
          g1 = addTestStage g0 (Some ''npm test'') (Some ''node:16'');
          g2 = addBuildStage g1 (Some ''npm ci && npm run build'') (Some ''node:16'');
          g3 = addDockerBuildStage g2 ''my-nodejs-app'' (Some ''${GIT_COMMIT:0:7}'');
          g4 = snd (addDeployStage g3 (Some ''dev'') JUndefined);
          g5 = snd (addDeployStage g4 (Some ''staging'') JUndefined)
      in snd (addDeployStage g5 (Some ''prod'') JUndefined))"

section \<open>Stage model: the environment check\<close>

lemma sublist_after_prefix:
  assumes "sublist x ys"
  shows "sublist x (ps @ ys)"
proof -
  from assms obtain a b where "ys = a @ x @ b"
    by (auto simp: sublist_def)
  then have "ps @ ys = (ps @ a) @ x @ b" by simp
  then show ?thesis
    unfolding sublist_def by blast
qed

lemma sublist_join:
  "x \<in> set xs \<Longrightarrow> sublist x (join sep xs)"
proof (induction sep xs rule: join.induct)
  case (1 sep)
  then show ?case by simp
next
  case (2 sep y)
  then show ?case by simp
next
  case (3 sep y z zs)
  show ?case
  proof (cases "x = y")
    case True
    then show ?thesis
      using sublist_appendI [of y "[]" "sep @ join sep (z # zs)"] by simp
  next
    case False
    with 3 have "sublist x (join sep (z # zs))" by simp
    then have "sublist x ((y @ sep) @ join sep (z # zs))"
      by (rule sublist_after_prefix)
    then show ?thesis by simp
  qed
qed

text \<open>
  C1. For every generator and every environment that is not one of the generator's known
  environments, \<^verbatim>\<open>addDeployStage\<close> throws an \<^verbatim>\<open>Error\<close> whose message names the
  rejected environment and lists the known ones, each of which occurs in the message, and
  the call leaves the generator as it was: no stage is appended and the number of stages is
  the same.
\<close>

theorem addDeployStage_rejects_unknown_environment:
  assumes "param_default ''dev'' environment \<notin> set (environments g)"
  shows "fst (addDeployStage g environment resources) =
           Inl (Error (''Environment '' @ param_default ''dev'' environment
                       @ '' is not valid. Use one of: '' @ join '', '' (environments g)))
       \<and> snd (addDeployStage g environment resources) = g
       \<and> length (stages (snd (addDeployStage g environment resources))) = length (stages g)
       \<and> (\<forall>e \<in> set (environments g).
            sublist e (''Environment '' @ param_default ''dev'' environment
                       @ '' is not valid. Use one of: '' @ join '', '' (environments g)))"
proof -
  have "sublist e ((''Environment '' @ param_default ''dev'' environment
                    @ '' is not valid. Use one of: '') @ join '', '' (environments g))"
    if "e \<in> set (environments g)" for e
    using that by (intro sublist_after_prefix sublist_join)
  then show ?thesis
    using assms by (simp add: addDeployStage_def Let_def)
qed

theorem addDeployStage_rejects_unknown_environment_witness:
  "fst (addDeployStage (constructor no_options) (Some ''qa'') (JObj [])) =
     Inl (Error ''Environment qa is not valid. Use one of: dev, staging, prod'')
   \<and> snd (addDeployStage (constructor no_options) (Some ''qa'') (JObj [])) = constructor no_options
   \<and> length (stages (snd (addDeployStage (constructor no_options) (Some ''qa'') (JObj [])))) = 0
   \<and> sublist ''staging'' ''Environment qa is not valid. Use one of: dev, staging, prod''"
proof -
  have env: "environments (constructor no_options) = [''dev'', ''staging'', ''prod'']"
    by (simp add: constructor_def Let_def)
  have h: "param_default ''dev'' (Some ''qa'') \<notin> set (environments (constructor no_options))"
    by (simp add: env param_default_def)
  have st: "stages (constructor no_options) = []"
    by (simp add: constructor_def Let_def)
  show ?thesis
    using addDeployStage_rejects_unknown_environment [OF h, of "JObj []"]
    by (simp add: env st param_default_def)
qed

section \<open>The Jenkins renderer: what a stage block reads\<close>

lemma bind_result_simps [simp]:
  "bind_result (Inl e) f = Inl e"
  "bind_result (Inr v) f = f v"
  by (simp_all add: bind_result_def)



















lemma example_stages:
  "stages example_generator =
     [JObj [(''name'', JStr ''test''),
            (''steps'', JArr [
               JObj [(''name'', JStr ''run-tests''), (''image'', JStr ''node:16''),
                     (''command'', JArr [JStr ''sh'', JStr ''-c'', JStr ''npm test''])]])],
      JObj [(''name'', JStr ''build''),
            (''steps'', JArr [
               JObj [(''name'', JStr ''build-app''), (''image'', JStr ''node:16''),
                     (''command'',
                        JArr [JStr ''sh'', JStr ''-c'', JStr ''npm ci && npm run build''])]])],
      JObj [(''name'', JStr ''docker-build''),
            (''steps'', JArr [
               JObj [(''name'', JStr ''build-and-push''),
                     (''image'', JStr ''docker:20.10.12-dind''),
                     (''command'',
                        JArr [JStr ''sh'', JStr ''-c'',
                              JStr (''docker build -t myorg/my-nodejs-app:${GIT_COMMIT:0:7}''
                                    @ '' -f ./Dockerfile . && docker push ''
                                    @ ''myorg/my-nodejs-app:${GIT_COMMIT:0:7}'')]),
                     (''env'',
                        JArr [JObj [(''name'', JStr ''DOCKER_HOST''),
                                    (''value'', JStr ''tcp://localhost:2375'')]])]])],
      deploy_stage ''dev'', deploy_stage ''staging'', deploy_stage ''prod'']"
  by (simp add: example_generator_def example_options_def constructor_def or_string_def
      addTestStage_def addBuildStage_def addDockerBuildStage_def addDeployStage_def
      addStage_def param_default_def Let_def)






lemma example_blocks:
  "forEach_stage (stages example_generator) acc =
     Inr (acc @ concat
       [stage_block_text ''test'' ''node'' ''npm test'',
        stage_block_text ''build'' ''node'' ''npm ci && npm run build'',
        stage_block_text ''docker-build'' ''docker''
          (''docker build -t myorg/my-nodejs-app:${GIT_COMMIT:0:7}''
           @ '' -f ./Dockerfile . && docker push ''
           @ ''myorg/my-nodejs-app:${GIT_COMMIT:0:7}''),
        stage_block_text ''deploy-to-dev'' ''bitnami/kubectl''
          ''kubectl apply -f /workspace/k8s/${ENVIRONMENT}/'',
        stage_block_text ''deploy-to-staging'' ''bitnami/kubectl''
          ''kubectl apply -f /workspace/k8s/${ENVIRONMENT}/'',
        stage_block_text ''deploy-to-prod'' ''bitnami/kubectl''
          ''kubectl apply -f /workspace/k8s/${ENVIRONMENT}/''])"
  by (simp add: example_stages deploy_stage_def stage_block_def call_split_def)





section \<open>The cloud pipeline: three fixed stages\<close>

text \<open>
  C2. For every generator, the document of \<^verbatim>\<open>generateAwsCodePipeline\<close> has a
  list of exactly three pipeline stages, named \<^verbatim>\<open>Source\<close>, \<^verbatim>\<open>Build\<close> and
  \<^verbatim>\<open>Deploy\<close> in this order, and the document does not depend on the stage model: the
  same configuration with any two stage lists gives equal documents, and appending a stage
  does not change the document.
\<close>

theorem generateAwsCodePipeline_three_stages:
  "(\<exists>source build deploy.
      select (generateAwsCodePipeline ext g)
        [Key ''Resources'', Key ''Pipeline'', Key ''Properties'', Key ''Stages'']
        = Inr (JArr [source, build, deploy])
      \<and> get_prop source ''Name'' = Inr (JStr ''Source'')
      \<and> get_prop build ''Name'' = Inr (JStr ''Build'')
      \<and> get_prop deploy ''Name'' = Inr (JStr ''Deploy''))
   \<and> generateAwsCodePipeline ext (g\<lparr>stages := stages1\<rparr>)
       = generateAwsCodePipeline ext (g\<lparr>stages := stages2\<rparr>)
   \<and> generateAwsCodePipeline ext (addStage g stage) = generateAwsCodePipeline ext g"
proof -
  have "select (generateAwsCodePipeline ext g)
          [Key ''Resources'', Key ''Pipeline'', Key ''Properties'', Key ''Stages'']
        = Inr (pipeline_stages g)"
    by (simp add: generateAwsCodePipeline_def Let_def)
  then have "\<exists>source build deploy.
      select (generateAwsCodePipeline ext g)
        [Key ''Resources'', Key ''Pipeline'', Key ''Properties'', Key ''Stages'']
        = Inr (JArr [source, build, deploy])
      \<and> get_prop source ''Name'' = Inr (JStr ''Source'')
      \<and> get_prop build ''Name'' = Inr (JStr ''Build'')
      \<and> get_prop deploy ''Name'' = Inr (JStr ''Deploy'')"
    by (simp add: pipeline_stages_def)
  moreover have "generateAwsCodePipeline ext (g\<lparr>stages := ss\<rparr>) = generateAwsCodePipeline ext g"
    for ss
    by (simp add: generateAwsCodePipeline_def pipeline_stages_def generateBuildSpec_def
        generateDeployBuildSpec_def Let_def)
  ultimately show ?thesis
    by (simp add: addStage_def)
qed

section \<open>The deploy stage\<close>

text \<open>
  C5, at \<^verbatim>\<open>addDeployStage('dev')\<close> on a new generator. The appended stage has one
  step, which runs the fixed \<^verbatim>\<open>kubectl apply\<close> command, and that step has no
  \<^verbatim>\<open>env\<close> property: the pair of \<^verbatim>\<open>ENVIRONMENT\<close> and the environment is the
  \<^verbatim>\<open>env\<close> property of the stage. \<^verbatim>\<open>addDockerBuildStage\<close> puts the environment
  variables of its step on the step.
\<close>

theorem addDeployStage_environment_on_stage:
  "stages (snd (addDeployStage (constructor no_options) (Some ''dev'') JUndefined))
     = [deploy_stage ''dev'']
   \<and> select (deploy_stage ''dev'') [Key ''steps'', Index 0, Key ''command'']
       = Inr (JArr [JStr ''sh'', JStr ''-c'',
                    JStr ''kubectl apply -f /workspace/k8s/${ENVIRONMENT}/''])
   \<and> select (deploy_stage ''dev'') [Key ''steps'', Index 1] = Inr JUndefined
   \<and> select (deploy_stage ''dev'') [Key ''steps'', Index 0, Key ''env''] = Inr JUndefined
   \<and> select (deploy_stage ''dev'') [Key ''env'']
       = Inr (JArr [JObj [(''name'', JStr ''ENVIRONMENT''), (''value'', JStr ''dev'')]])
   \<and> select (last (stages (addDockerBuildStage (constructor no_options) ''app'' None)))
         [Key ''steps'', Index 0, Key ''env'']
       = Inr (JArr [JObj [(''name'', JStr ''DOCKER_HOST''),
                          (''value'', JStr ''tcp://localhost:2375'')]])"
  by (simp add: addDeployStage_def addDockerBuildStage_def addStage_def constructor_def
      no_options_def or_string_def param_default_def deploy_stage_def Let_def)

section \<open>The deployment manifest\<close>

lemma placeholder_has_no_colon:
  "''IMAGE_PLACEHOLDER'' \<noteq> imageName @ '':'' @ t"
proof
  assume "''IMAGE_PLACEHOLDER'' = imageName @ '':'' @ t"
  then have "CHR '':'' \<in> set ''IMAGE_PLACEHOLDER''"
    by (metis in_set_conv_decomp append_Cons)
  then show False by simp
qed

text \<open>
  C6. For every image name, tag and resources argument, \<^verbatim>\<open>generateK8sDeployment\<close>
  serialises a document whose container image is the literal \<^verbatim>\<open>IMAGE_PLACEHOLDER\<close>,
  which is never the supplied name and tag joined by a colon, and whose resource requests
  are the resources argument (the default of the parameter when the argument is
  \<^verbatim>\<open>undefined\<close>).
\<close>

theorem generateK8sDeployment_placeholder_image:
  "generateK8sDeployment ext g imageName tag resources
     = dump ext (deployment g imageName tag resources)
   \<and> select (deployment g imageName tag resources)
         [Key ''spec'', Key ''template'', Key ''spec'', Key ''containers'', Index 0, Key ''image'']
       = Inr (JStr ''IMAGE_PLACEHOLDER'')
   \<and> JStr ''IMAGE_PLACEHOLDER'' \<noteq> JStr (imageName @ '':'' @ param_default ''latest'' tag)
   \<and> select (deployment g imageName tag resources)
         [Key ''spec'', Key ''template'', Key ''spec'', Key ''containers'', Index 0,
          Key ''resources'', Key ''requests'']
       = Inr (if resources = JUndefined
              then JObj [(''cpu'', JStr ''100m''), (''memory'', JStr ''128Mi'')]
              else resources)"
  using placeholder_has_no_colon [of imageName "param_default ''latest'' tag"]
  by (simp add: generateK8sDeployment_def deployment_def jsval_default_def Let_def)

section \<open>The repository identifier of the source action\<close>

text \<open>
  C7. The URL of the example program loses its prefix up to \<^verbatim>\<open>github.com/\<close>, and
  a URL with \<^verbatim>\<open>github.com:\<close> stays as it is. But at the repository URL
  \<^verbatim>\<open>https://githubXcom/owner/repo\<close>, which does not contain \<^verbatim>\<open>github.com/\<close>,
  the repository identifier of the source action is \<^verbatim>\<open>owner/repo\<close>, not the URL:
  the dot of the pattern is not escaped and matches the \<^verbatim>\<open>X\<close>.
\<close>

theorem replace_github_prefix_other_host:
  "replace_github_prefix ''https://github.com/myorg/my-nodejs-app'' = ''myorg/my-nodejs-app''
   \<and> replace_github_prefix ''git@github.com:owner/repo.git'' = ''git@github.com:owner/repo.git''
   \<and> \<not> sublist ''github.com/'' ''https://githubXcom/owner/repo''
   \<and> replace_github_prefix ''https://githubXcom/owner/repo'' = ''owner/repo''
   \<and> select
        (generateAwsCodePipeline ext
           (constructor (no_options\<lparr>opt_repoUrl := Some ''https://githubXcom/owner/repo''\<rparr>)))
        [Key ''Resources'', Key ''Pipeline'', Key ''Properties'', Key ''Stages'', Index 0,
         Key ''Actions'', Index 0, Key ''Configuration'', Key ''FullRepositoryId'']
       = Inr (JStr ''owner/repo'')"
proof -
  have a: "\<not> sublist ''github.com/'' ''https://githubXcom/owner/repo''"
    by (simp add: sublist_Cons_right)
  have b: "replace_github_prefix ''https://githubXcom/owner/repo'' = ''owner/repo''"
    by (simp add: replace_github_prefix_def match_token_def is_line_terminator_def)
  have c: "replace_github_prefix ''https://github.com/myorg/my-nodejs-app''
             = ''myorg/my-nodejs-app''"
    by (simp add: replace_github_prefix_def match_token_def is_line_terminator_def)
  have d: "replace_github_prefix ''git@github.com:owner/repo.git''
             = ''git@github.com:owner/repo.git''"
    by (simp add: replace_github_prefix_def match_token_def is_line_terminator_def)
  have "repoUrl (constructor (no_options\<lparr>opt_repoUrl := Some ''https://githubXcom/owner/repo''\<rparr>))
          = ''https://githubXcom/owner/repo''"
    by (simp add: constructor_def no_options_def or_string_def Let_def)
  then have "select
        (generateAwsCodePipeline ext
           (constructor (no_options\<lparr>opt_repoUrl := Some ''https://githubXcom/owner/repo''\<rparr>)))
        [Key ''Resources'', Key ''Pipeline'', Key ''Properties'', Key ''Stages'', Index 0,
         Key ''Actions'', Index 0, Key ''Configuration'', Key ''FullRepositoryId'']
       = Inr (JStr ''owner/repo'')"
    by (simp add: generateAwsCodePipeline_def pipeline_stages_def Let_def b)
  with a b c d show ?thesis by blast
qed

section \<open>Saving the files: what is written and what is returned\<close>

lemma files_ensure_directory [simp]: "files (ensure_directory fs p) = files fs"
  by (simp add: ensure_directory_def mkdirSync_def)

lemma files_foldl_ensure_directory [simp]:
  "files (foldl (\<lambda>f env. ensure_directory f (d env)) fs envs) = files fs"
  by (induction envs arbitrary: fs) simp_all

lemma files_writeFileSync [simp]:
  "files (writeFileSync fs p content) = files fs @ [(p, content)]"
  by (simp add: writeFileSync_def)

lemma files_save_manifests:
  "files (foldl (save_manifests ext g k8sDir) fs envs) =
     files fs @ concat (map (\<lambda>env.
       [(path_join (path_join k8sDir env) ''deployment.yaml'',
         generateK8sDeployment ext g (projectName g @ ''-'' @ env) None JUndefined),
        (path_join (path_join k8sDir env) ''service.yaml'',
         generateK8sService ext g JUndefined JUndefined JUndefined)]) envs)"
  by (induction envs arbitrary: fs) (simp_all add: save_manifests_def Let_def)

lemma saveToFiles_returns:
  assumes "generateJenkinsfile g = Inr jenkinsfile"
  shows "saveToFiles ext g fs outputDir =
     (let dir = param_default ''./pipeline'' outputDir; k8sDir = path_join dir ''k8s'' in
      (Inr (JObj [(''jenkinsfilePath'', JStr (path_join dir ''Jenkinsfile'')),
                  (''awsCodePipelinePath'', JStr (path_join dir ''aws-codepipeline.yaml'')),
                  (''buildspecPath'', JStr (path_join dir ''buildspec.yml'')),
                  (''deployBuildspecPath'', JStr (path_join dir ''deploy-buildspec.yml'')),
                  (''k8sDir'', JStr k8sDir)]),
       foldl (save_manifests ext g k8sDir)
         (writeFileSync
           (writeFileSync
             (writeFileSync
               (writeFileSync
                 (foldl (\<lambda>f env. ensure_directory f (path_join k8sDir env))
                    (ensure_directory (ensure_directory fs dir) k8sDir) (environments g))
                 (path_join dir ''Jenkinsfile'') jenkinsfile)
               (path_join dir ''aws-codepipeline.yaml'') (dump ext (generateAwsCodePipeline ext g)))
             (path_join dir ''buildspec.yml'') (generateBuildSpec ext g))
           (path_join dir ''deploy-buildspec.yml'') (generateDeployBuildSpec ext g))
         (environments g)))"
  using assms by (simp add: saveToFiles_def Let_def)

lemma saveToFiles_files:
  assumes "generateJenkinsfile g = Inr jenkinsfile"
  shows "files (snd (saveToFiles ext g fs outputDir)) =
     (let dir = param_default ''./pipeline'' outputDir; k8sDir = path_join dir ''k8s'' in
      files fs
      @ [(path_join dir ''Jenkinsfile'', jenkinsfile),
         (path_join dir ''aws-codepipeline.yaml'', dump ext (generateAwsCodePipeline ext g)),
         (path_join dir ''buildspec.yml'', generateBuildSpec ext g),
         (path_join dir ''deploy-buildspec.yml'', generateDeployBuildSpec ext g)]
      @ concat (map (\<lambda>env.
          [(path_join (path_join k8sDir env) ''deployment.yaml'',
            generateK8sDeployment ext g (projectName g @ ''-'' @ env) None JUndefined),
           (path_join (path_join k8sDir env) ''service.yaml'',
            generateK8sService ext g JUndefined JUndefined JUndefined)]) (environments g)))"
  by (simp add: saveToFiles_returns [OF assms] Let_def files_save_manifests)

lemma saveToFiles_throws:
  assumes "generateJenkinsfile g = Inl e"
  shows "fst (saveToFiles ext g fs outputDir) = Inl e"
    and "files (snd (saveToFiles ext g fs outputDir)) = files fs"
  using assms by (simp_all add: saveToFiles_def Let_def)

text \<open>
  C8, as the code has it. When \<^verbatim>\<open>saveToFiles\<close> returns, it has written, in this
  order, the Jenkinsfile, the pipeline template, the two build specifications and, for
  each known environment, a \<^verbatim>\<open>deployment.yaml\<close> and a \<^verbatim>\<open>service.yaml\<close>; the
  returned object holds the paths of the first four files and the path of the
  \<^verbatim>\<open>k8s\<close> directory, and nothing else.
\<close>

theorem saveToFiles_written_and_returned:
  assumes "saveToFiles ext g fs outputDir = (Inr ret, fs')"
  shows "\<exists>dir k8sDir.
           dir = param_default ''./pipeline'' outputDir \<and> k8sDir = path_join dir ''k8s''
           \<and> map fst (files fs') =
               map fst (files fs)
               @ [path_join dir ''Jenkinsfile'', path_join dir ''aws-codepipeline.yaml'',
                  path_join dir ''buildspec.yml'', path_join dir ''deploy-buildspec.yml'']
               @ concat (map (\<lambda>env.
                   [path_join (path_join k8sDir env) ''deployment.yaml'',
                    path_join (path_join k8sDir env) ''service.yaml'']) (environments g))
           \<and> ret = JObj [(''jenkinsfilePath'', JStr (path_join dir ''Jenkinsfile'')),
                         (''awsCodePipelinePath'', JStr (path_join dir ''aws-codepipeline.yaml'')),
                         (''buildspecPath'', JStr (path_join dir ''buildspec.yml'')),
                         (''deployBuildspecPath'', JStr (path_join dir ''deploy-buildspec.yml'')),
                         (''k8sDir'', JStr k8sDir)]
           \<and> returned_paths ret =
               [path_join dir ''Jenkinsfile'', path_join dir ''aws-codepipeline.yaml'',
                path_join dir ''buildspec.yml'', path_join dir ''deploy-buildspec.yml'', k8sDir]"
proof -
  from assms obtain jenkinsfile where j: "generateJenkinsfile g = Inr jenkinsfile"
    by (cases "generateJenkinsfile g") (auto simp: saveToFiles_def Let_def)
  from assms have fs': "fs' = snd (saveToFiles ext g fs outputDir)" by simp
  have "map fst (files fs') =
      map fst (files fs)
      @ [path_join (param_default ''./pipeline'' outputDir) ''Jenkinsfile'',
         path_join (param_default ''./pipeline'' outputDir) ''aws-codepipeline.yaml'',
         path_join (param_default ''./pipeline'' outputDir) ''buildspec.yml'',
         path_join (param_default ''./pipeline'' outputDir) ''deploy-buildspec.yml'']
      @ concat (map (\<lambda>env.
          [path_join (path_join (path_join (param_default ''./pipeline'' outputDir) ''k8s'') env)
             ''deployment.yaml'',
           path_join (path_join (path_join (param_default ''./pipeline'' outputDir) ''k8s'') env)
             ''service.yaml'']) (environments g))"
    unfolding fs' saveToFiles_files [OF j]
    by (simp add: Let_def map_concat comp_def)
  moreover from assms have
    "ret = JObj [(''jenkinsfilePath'',
                    JStr (path_join (param_default ''./pipeline'' outputDir) ''Jenkinsfile'')),
                 (''awsCodePipelinePath'',
                    JStr (path_join (param_default ''./pipeline'' outputDir)
                            ''aws-codepipeline.yaml'')),
                 (''buildspecPath'',
                    JStr (path_join (param_default ''./pipeline'' outputDir) ''buildspec.yml'')),
                 (''deployBuildspecPath'',
                    JStr (path_join (param_default ''./pipeline'' outputDir)
                            ''deploy-buildspec.yml'')),
                 (''k8sDir'', JStr (path_join (param_default ''./pipeline'' outputDir) ''k8s''))]"
    by (simp add: saveToFiles_returns [OF j] Let_def)
  ultimately show ?thesis by simp
qed


lemma example_generateJenkinsfile:
  "\<exists>jenkinsfile. generateJenkinsfile example_generator = Inr jenkinsfile"
  by (simp add: generateJenkinsfile_def example_blocks)

lemma example_environments:
  "environments example_generator = [''dev'', ''staging'', ''prod'']"
  by (simp add: example_generator_def example_options_def constructor_def or_string_def
      addTestStage_def addBuildStage_def addDockerBuildStage_def addDeployStage_def
      addStage_def param_default_def Let_def)

lemma example_paths:
  "path_join ''out'' ''k8s'' = ''out/k8s''"
  "path_join ''out'' ''Jenkinsfile'' = ''out/Jenkinsfile''"
  "path_join ''out'' ''aws-codepipeline.yaml'' = ''out/aws-codepipeline.yaml''"
  "path_join ''out'' ''buildspec.yml'' = ''out/buildspec.yml''"
  "path_join ''out'' ''deploy-buildspec.yml'' = ''out/deploy-buildspec.yml''"
  "path_join (path_join ''out/k8s'' ''dev'') ''deployment.yaml'' = ''out/k8s/dev/deployment.yaml''"
  "path_join (path_join ''out/k8s'' ''dev'') ''service.yaml'' = ''out/k8s/dev/service.yaml''"
  "path_join (path_join ''out/k8s'' ''staging'') ''deployment.yaml''
     = ''out/k8s/staging/deployment.yaml''"
  "path_join (path_join ''out/k8s'' ''staging'') ''service.yaml''
     = ''out/k8s/staging/service.yaml''"
  "path_join (path_join ''out/k8s'' ''prod'') ''deployment.yaml''
     = ''out/k8s/prod/deployment.yaml''"
  "path_join (path_join ''out/k8s'' ''prod'') ''service.yaml'' = ''out/k8s/prod/service.yaml''"
  by (simp_all add: path_join_def normalize_def Let_def)

lemma example_saveToFiles:
  "fst (saveToFiles ext example_generator empty_filesystem (Some ''out'')) =
     Inr (JObj [(''jenkinsfilePath'', JStr ''out/Jenkinsfile''),
                (''awsCodePipelinePath'', JStr ''out/aws-codepipeline.yaml''),
                (''buildspecPath'', JStr ''out/buildspec.yml''),
                (''deployBuildspecPath'', JStr ''out/deploy-buildspec.yml''),
                (''k8sDir'', JStr ''out/k8s'')])"
  "map fst (files (snd (saveToFiles ext example_generator empty_filesystem (Some ''out'')))) =
     [''out/Jenkinsfile'', ''out/aws-codepipeline.yaml'', ''out/buildspec.yml'',
      ''out/deploy-buildspec.yml'',
      ''out/k8s/dev/deployment.yaml'', ''out/k8s/dev/service.yaml'',
      ''out/k8s/staging/deployment.yaml'', ''out/k8s/staging/service.yaml'',
      ''out/k8s/prod/deployment.yaml'', ''out/k8s/prod/service.yaml'']"
proof -
  obtain jenkinsfile where j: "generateJenkinsfile example_generator = Inr jenkinsfile"
    using example_generateJenkinsfile by blast
  show "fst (saveToFiles ext example_generator empty_filesystem (Some ''out'')) =
     Inr (JObj [(''jenkinsfilePath'', JStr ''out/Jenkinsfile''),
                (''awsCodePipelinePath'', JStr ''out/aws-codepipeline.yaml''),
                (''buildspecPath'', JStr ''out/buildspec.yml''),
                (''deployBuildspecPath'', JStr ''out/deploy-buildspec.yml''),
                (''k8sDir'', JStr ''out/k8s'')])"
    by (simp add: saveToFiles_returns [OF j] Let_def param_default_def example_paths)
  show "map fst (files (snd (saveToFiles ext example_generator empty_filesystem (Some ''out'')))) =
     [''out/Jenkinsfile'', ''out/aws-codepipeline.yaml'', ''out/buildspec.yml'',
      ''out/deploy-buildspec.yml'',
      ''out/k8s/dev/deployment.yaml'', ''out/k8s/dev/service.yaml'',
      ''out/k8s/staging/deployment.yaml'', ''out/k8s/staging/service.yaml'',
      ''out/k8s/prod/deployment.yaml'', ''out/k8s/prod/service.yaml'']"
    by (simp add: saveToFiles_files [OF j] Let_def param_default_def example_paths
        example_environments empty_filesystem_def)
qed

theorem saveToFiles_written_and_returned_witness:
  "saveToFiles sample_externals example_generator empty_filesystem (Some ''out'') =
     (Inr (JObj [(''jenkinsfilePath'', JStr ''out/Jenkinsfile''),
                 (''awsCodePipelinePath'', JStr ''out/aws-codepipeline.yaml''),
                 (''buildspecPath'', JStr ''out/buildspec.yml''),
                 (''deployBuildspecPath'', JStr ''out/deploy-buildspec.yml''),
                 (''k8sDir'', JStr ''out/k8s'')]),
      snd (saveToFiles sample_externals example_generator empty_filesystem (Some ''out'')))
   \<and> map fst (files (snd (saveToFiles sample_externals example_generator empty_filesystem
                             (Some ''out'')))) =
       [''out/Jenkinsfile'', ''out/aws-codepipeline.yaml'', ''out/buildspec.yml'',
        ''out/deploy-buildspec.yml'',
        ''out/k8s/dev/deployment.yaml'', ''out/k8s/dev/service.yaml'',
        ''out/k8s/staging/deployment.yaml'', ''out/k8s/staging/service.yaml'',
        ''out/k8s/prod/deployment.yaml'', ''out/k8s/prod/service.yaml'']
   \<and> returned_paths
         (JObj [(''jenkinsfilePath'', JStr ''out/Jenkinsfile''),
                (''awsCodePipelinePath'', JStr ''out/aws-codepipeline.yaml''),
                (''buildspecPath'', JStr ''out/buildspec.yml''),
                (''deployBuildspecPath'', JStr ''out/deploy-buildspec.yml''),
                (''k8sDir'', JStr ''out/k8s'')]) =
       [''out/Jenkinsfile'', ''out/aws-codepipeline.yaml'', ''out/buildspec.yml'',
        ''out/deploy-buildspec.yml'', ''out/k8s'']"
proof -
  let ?ret = "JObj [(''jenkinsfilePath'', JStr ''out/Jenkinsfile''),
                    (''awsCodePipelinePath'', JStr ''out/aws-codepipeline.yaml''),
                    (''buildspecPath'', JStr ''out/buildspec.yml''),
                    (''deployBuildspecPath'', JStr ''out/deploy-buildspec.yml''),
                    (''k8sDir'', JStr ''out/k8s'')]"
  let ?call = "saveToFiles sample_externals example_generator empty_filesystem (Some ''out'')"
  have h: "?call = (Inr ?ret, snd ?call)"
    using example_saveToFiles(1) [of sample_externals] by (simp add: prod_eq_iff)
  from saveToFiles_written_and_returned [OF h]
  have "map fst (files (snd ?call)) =
       [''out/Jenkinsfile'', ''out/aws-codepipeline.yaml'', ''out/buildspec.yml'',
        ''out/deploy-buildspec.yml'',
        ''out/k8s/dev/deployment.yaml'', ''out/k8s/dev/service.yaml'',
        ''out/k8s/staging/deployment.yaml'', ''out/k8s/staging/service.yaml'',
        ''out/k8s/prod/deployment.yaml'', ''out/k8s/prod/service.yaml'']"
    by (simp add: param_default_def example_paths example_environments empty_filesystem_def)
  moreover from saveToFiles_written_and_returned [OF h]
  have "returned_paths ?ret =
       [''out/Jenkinsfile'', ''out/aws-codepipeline.yaml'', ''out/buildspec.yml'',
        ''out/deploy-buildspec.yml'', ''out/k8s'']"
    by (simp add: param_default_def example_paths)
  ultimately show ?thesis using h by simp
qed

text \<open>
  For the example program and the output directory \<^verbatim>\<open>out\<close>, the file
  \<^verbatim>\<open>out/k8s/dev/deployment.yaml\<close> is written and is not among the paths of the
  returned object.
\<close>

theorem saveToFiles_manifest_paths_not_returned:
  "''out/k8s/dev/deployment.yaml''
     \<in> set (map fst (files (snd (saveToFiles sample_externals example_generator
                                   empty_filesystem (Some ''out'')))))
   \<and> fst (saveToFiles sample_externals example_generator empty_filesystem (Some ''out'')) =
       Inr (JObj [(''jenkinsfilePath'', JStr ''out/Jenkinsfile''),
                  (''awsCodePipelinePath'', JStr ''out/aws-codepipeline.yaml''),
                  (''buildspecPath'', JStr ''out/buildspec.yml''),
                  (''deployBuildspecPath'', JStr ''out/deploy-buildspec.yml''),
                  (''k8sDir'', JStr ''out/k8s'')])
   \<and> ''out/k8s/dev/deployment.yaml''
       \<notin> set (returned_paths
                 (JObj [(''jenkinsfilePath'', JStr ''out/Jenkinsfile''),
                        (''awsCodePipelinePath'', JStr ''out/aws-codepipeline.yaml''),
                        (''buildspecPath'', JStr ''out/buildspec.yml''),
                        (''deployBuildspecPath'', JStr ''out/deploy-buildspec.yml''),
                        (''k8sDir'', JStr ''out/k8s'')]))"
  unfolding example_saveToFiles by simp

text \<open>
  C10. \<^verbatim>\<open>generateK8sDeployment\<close> gives the same text for any two image names and
  tags, and when \<^verbatim>\<open>saveToFiles\<close> returns, the writes after its first four are, for
  each known environment in turn, the \<^verbatim>\<open>deployment.yaml\<close> and the
  \<^verbatim>\<open>service.yaml\<close> of that environment, every \<^verbatim>\<open>deployment.yaml\<close> with one and
  the same text.
\<close>

theorem generateK8sDeployment_ignores_image_name:
  "generateK8sDeployment ext g imageName tag resources
     = generateK8sDeployment ext g imageName' tag' resources
   \<and> (\<forall>ret fs'. saveToFiles ext g fs outputDir = (Inr ret, fs') \<longrightarrow>
         (\<exists>top. length top = 4
            \<and> files fs' = files fs @ top
                @ concat (map (\<lambda>env.
                    [(path_join
                        (path_join (path_join (param_default ''./pipeline'' outputDir) ''k8s'') env)
                        ''deployment.yaml'',
                      generateK8sDeployment ext g imageName tag JUndefined),
                     (path_join
                        (path_join (path_join (param_default ''./pipeline'' outputDir) ''k8s'') env)
                        ''service.yaml'',
                      generateK8sService ext g JUndefined JUndefined JUndefined)])
                  (environments g))))"
proof -
  have indep: "generateK8sDeployment ext g a t r = generateK8sDeployment ext g a' t' r"
    for a t a' t' r
    by (simp add: generateK8sDeployment_def deployment_def)
  have "\<exists>top. length top = 4
            \<and> files fs' = files fs @ top
                @ concat (map (\<lambda>env.
                    [(path_join
                        (path_join (path_join (param_default ''./pipeline'' outputDir) ''k8s'') env)
                        ''deployment.yaml'',
                      generateK8sDeployment ext g imageName tag JUndefined),
                     (path_join
                        (path_join (path_join (param_default ''./pipeline'' outputDir) ''k8s'') env)
                        ''service.yaml'',
                      generateK8sService ext g JUndefined JUndefined JUndefined)])
                  (environments g))"
    if call: "saveToFiles ext g fs outputDir = (Inr ret, fs')" for ret fs'
  proof -
    from call obtain jenkinsfile where j: "generateJenkinsfile g = Inr jenkinsfile"
      by (cases "generateJenkinsfile g") (auto simp: saveToFiles_def Let_def)
    from call have fs': "fs' = snd (saveToFiles ext g fs outputDir)" by simp
    let ?dir = "param_default ''./pipeline'' outputDir"
    let ?top = "[(path_join ?dir ''Jenkinsfile'', jenkinsfile),
         (path_join ?dir ''aws-codepipeline.yaml'', dump ext (generateAwsCodePipeline ext g)),
         (path_join ?dir ''buildspec.yml'', generateBuildSpec ext g),
         (path_join ?dir ''deploy-buildspec.yml'', generateDeployBuildSpec ext g)]"
    have "files fs' = files fs @ ?top
                @ concat (map (\<lambda>env.
                    [(path_join (path_join (path_join ?dir ''k8s'') env) ''deployment.yaml'',
                      generateK8sDeployment ext g imageName tag JUndefined),
                     (path_join (path_join (path_join ?dir ''k8s'') env) ''service.yaml'',
                      generateK8sService ext g JUndefined JUndefined JUndefined)])
                  (environments g))"
      unfolding fs' saveToFiles_files [OF j] Let_def
      using indep [of _ None JUndefined imageName tag] by simp
    moreover have "length ?top = 4" by simp
    ultimately show ?thesis by blast
  qed
  with indep show ?thesis by blast
qed

theorem generateK8sDeployment_ignores_image_name_witness:
  "generateK8sDeployment sample_externals example_generator ''custom-app'' (Some ''v1.0.0'')
       (JObj [(''cpu'', JStr ''200m''), (''memory'', JStr ''256Mi'')])
     = generateK8sDeployment sample_externals example_generator ''other'' None
         (JObj [(''cpu'', JStr ''200m''), (''memory'', JStr ''256Mi'')])
   \<and> (\<exists>top. length top = 4
        \<and> files (snd (saveToFiles sample_externals example_generator empty_filesystem
                         (Some ''out''))) =
            top @
            [(''out/k8s/dev/deployment.yaml'',
              generateK8sDeployment sample_externals example_generator [] None JUndefined),
             (''out/k8s/dev/service.yaml'',
              generateK8sService sample_externals example_generator JUndefined JUndefined
                JUndefined),
             (''out/k8s/staging/deployment.yaml'',
              generateK8sDeployment sample_externals example_generator [] None JUndefined),
             (''out/k8s/staging/service.yaml'',
              generateK8sService sample_externals example_generator JUndefined JUndefined
                JUndefined),
             (''out/k8s/prod/deployment.yaml'',
              generateK8sDeployment sample_externals example_generator [] None JUndefined),
             (''out/k8s/prod/service.yaml'',
              generateK8sService sample_externals example_generator JUndefined JUndefined
                JUndefined)])"
proof -
  let ?ret = "JObj [(''jenkinsfilePath'', JStr ''out/Jenkinsfile''),
                    (''awsCodePipelinePath'', JStr ''out/aws-codepipeline.yaml''),
                    (''buildspecPath'', JStr ''out/buildspec.yml''),
                    (''deployBuildspecPath'', JStr ''out/deploy-buildspec.yml''),
                    (''k8sDir'', JStr ''out/k8s'')]"
  let ?call = "saveToFiles sample_externals example_generator empty_filesystem (Some ''out'')"
  note t = generateK8sDeployment_ignores_image_name
    [of sample_externals example_generator _ _ _ _ _ empty_filesystem "Some ''out''"]
  have h: "?call = (Inr ?ret, snd ?call)"
    using example_saveToFiles(1) [of sample_externals] by (simp add: prod_eq_iff)
  from t [of "''custom-app''" "Some ''v1.0.0''"
           "JObj [(''cpu'', JStr ''200m''), (''memory'', JStr ''256Mi'')]" "''other''" None]
  have a: "generateK8sDeployment sample_externals example_generator ''custom-app''
             (Some ''v1.0.0'') (JObj [(''cpu'', JStr ''200m''), (''memory'', JStr ''256Mi'')])
     = generateK8sDeployment sample_externals example_generator ''other'' None
         (JObj [(''cpu'', JStr ''200m''), (''memory'', JStr ''256Mi'')])"
    by (rule conjunct1)
  from t [of "[]" None JUndefined "[]" None] h
  have "\<exists>top. length top = 4
        \<and> files (snd ?call) = files empty_filesystem @ top
            @ concat (map (\<lambda>env.
                [(path_join (path_join (path_join (param_default ''./pipeline'' (Some ''out''))
                     ''k8s'') env) ''deployment.yaml'',
                  generateK8sDeployment sample_externals example_generator [] None JUndefined),
                 (path_join (path_join (path_join (param_default ''./pipeline'' (Some ''out''))
                     ''k8s'') env) ''service.yaml'',
                  generateK8sService sample_externals example_generator JUndefined JUndefined
                    JUndefined)])
              (environments example_generator))"
    by blast
  then have b: "\<exists>top. length top = 4
        \<and> files (snd ?call) =
            top @
            [(''out/k8s/dev/deployment.yaml'',
              generateK8sDeployment sample_externals example_generator [] None JUndefined),
             (''out/k8s/dev/service.yaml'',
              generateK8sService sample_externals example_generator JUndefined JUndefined
                JUndefined),
             (''out/k8s/staging/deployment.yaml'',
              generateK8sDeployment sample_externals example_generator [] None JUndefined),
             (''out/k8s/staging/service.yaml'',
              generateK8sService sample_externals example_generator JUndefined JUndefined
                JUndefined),
             (''out/k8s/prod/deployment.yaml'',
              generateK8sDeployment sample_externals example_generator [] None JUndefined),
             (''out/k8s/prod/service.yaml'',
              generateK8sService sample_externals example_generator JUndefined JUndefined
                JUndefined)]"
    by (simp add: param_default_def example_paths example_environments empty_filesystem_def)
  from a b show ?thesis by (rule conjI)
qed

end
